theory Spec2Isabelle
  imports Complex_Main
begin

section \<open>JavaScript numbers as used by the level code\<close>

text \<open>
  Headings and angles are JavaScript numbers. The model keeps the integer-valued ones
  exactly (\<open>Num\<close>) and folds every non-number that can reach the arithmetic
  (\<open>undefined\<close> from an out-of-range array read, \<open>NaN\<close>) into \<open>NaN\<close>: both
  propagate through \<open>-\<close>, \<open>+\<close> and \<open>%\<close> as \<open>NaN\<close> and both compare unequal to
  everything under \<open>==\<close> and \<open>===\<close>.
\<close>

datatype jsnum = Num int | NaN

text \<open>\<open>a == b\<close> and \<open>a === b\<close> on numbers: \<open>NaN\<close> equals nothing, itself included.\<close>

definition js_eq :: "jsnum \<Rightarrow> jsnum \<Rightarrow> bool" where
  "js_eq a b = (case (a, b) of (Num x, Num y) \<Rightarrow> x = y | _ \<Rightarrow> False)"

definition js_sub :: "jsnum \<Rightarrow> jsnum \<Rightarrow> jsnum" where
  "js_sub a b = (case (a, b) of (Num x, Num y) \<Rightarrow> Num (x - y) | _ \<Rightarrow> NaN)"

definition js_add :: "jsnum \<Rightarrow> jsnum \<Rightarrow> jsnum" where
  "js_add a b = (case (a, b) of (Num x, Num y) \<Rightarrow> Num (x + y) | _ \<Rightarrow> NaN)"

text \<open>
  The remainder operator \<open>%\<close> truncates: the result has the sign of the dividend
  (\<open>-90 % 360\<close> is \<open>-90\<close>). A zero divisor gives \<open>NaN\<close>.
\<close>

definition jsrem :: "int \<Rightarrow> int \<Rightarrow> int" where
  "jsrem a b = sgn a * (\<bar>a\<bar> mod \<bar>b\<bar>)"

definition js_rem :: "jsnum \<Rightarrow> jsnum \<Rightarrow> jsnum" where
  "js_rem a b =
     (case (a, b) of
        (Num x, Num y) \<Rightarrow> (if y = 0 then NaN else Num (jsrem x y))
      | _ \<Rightarrow> NaN)"

text \<open>\<open>x || 0\<close>: a falsy number (0, \<open>NaN\<close>, \<open>undefined\<close>) gives 0.\<close>

definition js_or0 :: "jsnum \<Rightarrow> jsnum" where
  "js_or0 a = (case a of Num x \<Rightarrow> Num x | NaN \<Rightarrow> Num 0)"

text \<open>\<open>xs[i]\<close>: an index outside the array reads \<open>undefined\<close>.\<close>

definition js_nth :: "jsnum list \<Rightarrow> int \<Rightarrow> jsnum" where
  "js_nth xs i = (if 0 \<le> i \<and> i < int (length xs) then xs ! nat i else NaN)"

section \<open>Level data (structure.js)\<close>

text \<open>
  An event is an action or decoration object without its \<open>floor\<close> key; only the
  payload keys that the code reads are kept, each optional. \<open>editorOnly\<close> is compared
  with \<open>true\<close> and with the string \<open>Enabled\<close>.
\<close>

datatype editor_flag = FlagBool bool | FlagStr string

record event =
  eventType :: string
  positionOffset :: "(real \<times> real) option"
  editorOnly :: "editor_flag option"
  duration :: "real option"
  speedType :: "string option"
  bpmMultiplier :: "real option"
  beatsPerMinute :: "real option"

text \<open>A flat action as stored in the file: an event with its floor number.\<close>

record action = event +
  floorN :: int

record tilepos =
  posx :: real
  posy :: real
  angle1 :: int
  angle2 :: int
  cangle :: jsnum

record tile =
  direction :: jsnum
  lastdir :: jsnum
  actions :: "event list"
  angle :: jsnum
  addDecorations :: "event list"
  twirl :: nat
  position :: "tilepos option"

datatype jsval = JNum real | JStr string | JBool bool

type_synonym settings = "(string \<times> jsval) list"

record level =
  angleData :: "jsnum list"
  actionsL :: "action list"
  settingsL :: "settings option"
  decorationsL :: "action list"
  tiles :: "tile list"
  angleDir :: jsnum
  twirlCount :: nat

record array_opt =
  opt_angleData :: "jsnum list"
  opt_actions :: "action list"
  opt_decorations :: "action list"

subsection \<open>The angle recurrence\<close>

text \<open>
  The recurrence reads and writes two fields of the level, \<open>_angleDir\<close> and
  \<open>_twirlCount\<close>; each method below takes the field it touches and returns its new
  value next to its result.

  \<open>_filterByFloor\<close>: the actions of floor \<open>i\<close>, without their floor key; the Twirl
  actions among them are added to \<open>_twirlCount\<close>.
\<close>

definition filterByFloor :: "action list \<Rightarrow> nat \<Rightarrow> nat \<Rightarrow> event list \<times> nat" where
  "filterByFloor arr i tc =
     (let actionT = filter (\<lambda>item. floorN item = int i) arr
      in (map event.truncate actionT,
          tc + length (filter (\<lambda>t. eventType t = ''Twirl'') actionT)))"

definition filterByFloorwithDeco :: "action list \<Rightarrow> nat \<Rightarrow> event list" where
  "filterByFloorwithDeco arr i =
     map event.truncate (filter (\<lambda>item. floorN item = int i) arr)"

text \<open>
  \<open>_parseAngle(agd, i, isTwirl)\<close> on the current \<open>_angleDir\<close>. The test
  \<open>this._angleDir == NaN\<close> is kept: it is never true.
\<close>

definition parseAngle :: "jsnum list \<Rightarrow> nat \<Rightarrow> nat \<Rightarrow> jsnum \<Rightarrow> jsnum \<times> jsnum" where
  "parseAngle agd i isTwirl ad0 =
     (let ad1 = (if i = 0 then Num 180 else ad0)
      in if js_eq (js_nth agd (int i)) (Num 999)
         then (let ad2 = js_nth agd (int i - 1);
                   ad3 = (if js_eq ad2 NaN then Num 0 else ad2)
               in (Num 0, ad3))
         else (let prev = (if isTwirl = 0
                           then js_rem (js_sub ad1 (js_nth agd (int i))) (Num 360)
                           else js_sub (Num 360)
                                  (js_rem (js_sub ad1 (js_nth agd (int i))) (Num 360)));
                   prev' = (if js_eq prev (Num 0) then Num 360 else prev)
               in (prev', js_add (js_nth agd (int i)) (Num 180))))"

text \<open>
  One element of \<open>_createArray\<close>: the properties of the object literal are evaluated in
  the order written, so \<open>_filterByFloor\<close> runs before \<open>_parseAngle\<close> reads
  \<open>_twirlCount % 2\<close>. The state is the pair (\<open>_angleDir\<close>, \<open>_twirlCount\<close>).
\<close>

definition mkTile :: "array_opt \<Rightarrow> nat \<Rightarrow> jsnum \<times> nat \<Rightarrow> tile \<times> (jsnum \<times> nat)" where
  "mkTile opt i st =
     (let (acts, tc) = filterByFloor (opt_actions opt) i (snd st);
          (ang, ad) = parseAngle (opt_angleData opt) i (tc mod 2) (fst st)
      in (\<lparr>direction = js_nth (opt_angleData opt) (int i),
           lastdir = js_or0 (js_nth (opt_angleData opt) (int i - 1)),
           actions = acts,
           angle = ang,
           addDecorations = filterByFloorwithDeco (opt_decorations opt) i,
           twirl = tc,
           position = None\<rparr>, (ad, tc)))"

text \<open>\<open>Array.from({length: xLength}, ...)\<close> calls the mapper for \<open>i = 0, 1, ...\<close> in order.\<close>

fun createTiles :: "array_opt \<Rightarrow> nat \<Rightarrow> nat \<Rightarrow> jsnum \<times> nat \<Rightarrow> tile list \<times> (jsnum \<times> nat)" where
  "createTiles opt i 0 st = ([], st)"
| "createTiles opt i (Suc n) st =
     (let (t, st1) = mkTile opt i st;
          (ts, st2) = createTiles opt (Suc i) n st1
      in (t # ts, st2))"

definition createArray :: "nat \<Rightarrow> array_opt \<Rightarrow> level \<Rightarrow> tile list \<times> level" where
  "createArray xLength opt L =
     (let (m, st) = createTiles opt 0 xLength (angleDir L, twirlCount L)
      in (m, L\<lparr>angleDir := fst st, twirlCount := snd st\<rparr>))"

text \<open>The level as \<open>load\<close> leaves it just before \<open>_createArray\<close> is called.\<close>

definition freshLevel :: "jsnum list \<Rightarrow> action list \<Rightarrow> settings option \<Rightarrow> action list \<Rightarrow> level" where
  "freshLevel agd acts st decos =
     \<lparr>angleData = agd, actionsL = acts, settingsL = st, decorationsL = decos,
      tiles = [], angleDir = Num (- 180), twirlCount = 0\<rparr>"

text \<open>The tiles that \<open>load\<close> builds from a heading list and the flat action and decoration lists.\<close>

definition buildTiles :: "jsnum list \<Rightarrow> action list \<Rightarrow> action list \<Rightarrow> tile list" where
  "buildTiles agd acts decos =
     fst (createArray (length agd)
            \<lparr>opt_angleData = agd, opt_actions = acts, opt_decorations = decos\<rparr>
            (freshLevel agd acts None decos))"

text \<open>
  The value of \<open>_angleDir\<close> that the angle of tile \<open>i\<close> is computed from, after
  the reset at \<open>i = 0\<close>: 180 for the first tile, otherwise what tile \<open>i - 1\<close> left
  (its predecessor's raw heading for a midspin tile, its own heading plus 180 otherwise).
\<close>

definition angleDirBefore :: "jsnum list \<Rightarrow> nat \<Rightarrow> jsnum" where
  "angleDirBefore agd i =
     (if i = 0 then Num 180
      else if js_eq (js_nth agd (int i - 1)) (Num 999) then js_nth agd (int i - 2)
      else js_add (js_nth agd (int i - 1)) (Num 180))"

text \<open>The number of Twirl actions registered at floor \<open>i\<close>.\<close>

definition twirlsAt :: "action list \<Rightarrow> nat \<Rightarrow> nat" where
  "twirlsAt arr i = length (filter (\<lambda>a. eventType a = ''Twirl'' \<and> floorN a = int i) arr)"

subsection \<open>Replaying the angles after an edit\<close>

text \<open>
  \<open>_parsechangedAngle(agd, i, isTwirl, lstagd)\<close>: the tile's own direction, the
  counter, the tile's stored \<open>twirl\<close> and its stored \<open>_lastdir\<close>.
\<close>

definition parsechangedAngle :: "jsnum \<Rightarrow> nat \<Rightarrow> nat \<Rightarrow> jsnum \<Rightarrow> jsnum \<Rightarrow> jsnum \<times> jsnum" where
  "parsechangedAngle agd i isTwirl lstagd ad0 =
     (let ad1 = (if i = 0 then Num 180 else ad0)
      in if js_eq agd (Num 999)
         then (let ad2 = lstagd;
                   ad3 = (if js_eq ad2 NaN then Num 0 else ad2)
               in (Num 0, ad3))
         else (let prev = (if isTwirl = 0
                           then js_rem (js_sub ad1 agd) (Num 360)
                           else js_sub (Num 360) (js_rem (js_sub ad1 agd) (Num 360)));
                   prev' = (if js_eq prev (Num 0) then Num 360 else prev)
               in (prev', js_add agd (Num 180))))"

text \<open>
  \<open>_changeAngle\<close>: \<open>y\<close> starts at 0 and is incremented before each call, so the first
  tile is replayed with \<open>i = 1\<close>.
\<close>

fun changeTiles :: "tile list \<Rightarrow> nat \<Rightarrow> jsnum \<Rightarrow> tile list \<times> jsnum" where
  "changeTiles [] y ad = ([], ad)"
| "changeTiles (t # ts) y ad =
     (let y1 = y + 1;
          (a, ad1) = parsechangedAngle (direction t) y1 (twirl t) (lastdir t) ad;
          (ts', ad2) = changeTiles ts y1 ad1
      in (t\<lparr>angle := a\<rparr> # ts', ad2))"

definition changeAngle :: "level \<Rightarrow> level" where
  "changeAngle L =
     (let (m, ad) = changeTiles (tiles L) 0 (angleDir L)
      in L\<lparr>tiles := m, angleDir := ad\<rparr>)"

datatype js_error = TypeError

text \<open>
  \<open>appendFloor\<close>: reading \<open>.direction\<close> of the last tile of an empty list throws.
\<close>

definition appendFloor :: "jsnum \<Rightarrow> level \<Rightarrow> js_error + level" where
  "appendFloor dir L =
     (if tiles L = [] then Inl TypeError
      else Inr (changeAngle
             (L\<lparr>tiles := tiles L @
                   [\<lparr>direction = dir, lastdir = direction (last (tiles L)), actions = [],
                     angle = Num 0, addDecorations = [], twirl = twirl (last (tiles L)),
                     position = None\<rparr>]\<rparr>)))"

datatype floor_op = Append jsnum | Insert int jsnum | Delete int | OtherOp

text \<open>
  \<open>floorOperation\<close>. For an insert, \<open>this.tiles[info.id - 1]\<close> must exist or the read
  of its \<open>direction\<close> throws; \<open>splice(id, 1)\<close> counts a negative index from the end and
  removes nothing past the end. The append case calls \<open>appendFloor\<close>, which replays
  the angles itself, and then falls to the common \<open>_changeAngle\<close>.
\<close>

definition floorOperation :: "floor_op \<Rightarrow> level \<Rightarrow> js_error + level" where
  "floorOperation info L =
     (case info of
        Append dir \<Rightarrow>
          (case appendFloor dir L of Inl e \<Rightarrow> Inl e | Inr L1 \<Rightarrow> Inr (changeAngle L1))
      | Insert ident dir \<Rightarrow>
          (if 0 \<le> ident - 1 \<and> ident - 1 < int (length (tiles L))
           then (let prv = tiles L ! nat (ident - 1);
                     t = \<lparr>direction = dir, lastdir = direction prv, actions = [],
                          angle = Num 0, addDecorations = [], twirl = twirl prv,
                          position = None\<rparr>
                 in Inr (changeAngle
                      (L\<lparr>tiles := take (nat ident) (tiles L) @ [t] @ drop (nat ident) (tiles L)\<rparr>)))
           else Inl TypeError)
      | Delete ident \<Rightarrow>
          (let len = int (length (tiles L));
               start = nat (if ident < 0 then max (len + ident) 0 else min ident len)
           in Inr (changeAngle
                (L\<lparr>tiles := take start (tiles L) @ drop (start + 1) (tiles L)\<rparr>)))
      | OtherOp \<Rightarrow> Inr L)"

subsection \<open>Action queries and the position pass\<close>

text \<open>\<open>filterActionsByEventType\<close> and \<open>getActionsByIndex\<close>: (count, actions).\<close>

definition filterActionsByEventType :: "tile list \<Rightarrow> string \<Rightarrow> (nat \<times> event) list" where
  "filterActionsByEventType ts en =
     filter (\<lambda>(index, b). eventType b = en)
       (concat (map (\<lambda>(index, a). map (\<lambda>b. (index, b)) (actions a))
                  (zip [0 ..< length ts] ts)))"

definition getActionsByIndex :: "tile list \<Rightarrow> string \<Rightarrow> nat \<Rightarrow> nat \<times> event list" where
  "getActionsByIndex ts en index =
     (let matches = filter (\<lambda>(ix, b). ix = index) (filterActionsByEventType ts en)
      in (length matches, map snd matches))"

text \<open>\<open>Number(v) || 0\<close> on a heading.\<close>

definition num_or0 :: "jsnum \<Rightarrow> int" where
  "num_or0 a = (case a of Num x \<Rightarrow> x | NaN \<Rightarrow> 0)"

text \<open>\<open>Number(x.toFixed(8))\<close>: the nearest multiple of \<open>10^-8\<close>, ties away from zero.\<close>

definition toFixed8 :: "real \<Rightarrow> real" where
  "toFixed8 x = sgn x * real_of_int \<lfloor>\<bar>x\<bar> * 10 ^ 8 + 1 / 2\<rfloor> / 10 ^ 8"

text \<open>The first loop of \<open>calculateTileCoordinates\<close>: midspin entries become the previous raw heading plus 180.\<close>

definition resolveFloats :: "jsnum list \<Rightarrow> nat \<Rightarrow> jsnum list" where
  "resolveFloats angles n =
     map (\<lambda>i. let v = js_nth angles (int i)
              in if js_eq v (Num 999) then js_add (js_nth angles (int i - 1)) (Num 180) else v)
       [0 ..< n]"

text \<open>
  The offset of the first PositionTrack action of floor \<open>i\<close>, unless it is editor-only.
\<close>

definition trackOffset :: "tile list \<Rightarrow> nat \<Rightarrow> real \<times> real" where
  "trackOffset ts i =
     (let (cnt, acts) = getActionsByIndex ts ''PositionTrack'' i
      in if cnt > 0
         then (let pevent = hd acts
               in case positionOffset pevent of
                    Some off \<Rightarrow>
                      (if editorOnly pevent \<noteq> Some (FlagBool True)
                          \<and> editorOnly pevent \<noteq> Some (FlagStr ''Enabled'')
                       then off else (0, 0))
                  | None \<Rightarrow> (0, 0))
         else (0, 0))"

text \<open>
  The second loop, for \<open>i\<close> up to and including \<open>floats.length\<close>; \<open>n\<close> counts the
  iterations left. A tile beyond the list (\<open>this.tiles[i]\<close> undefined) is not written.
\<close>

fun coordLoop :: "jsnum list \<Rightarrow> nat \<Rightarrow> nat \<Rightarrow> real \<times> real \<Rightarrow> tile list \<Rightarrow> tile list" where
  "coordLoop floats i 0 startPos ts = ts"
| "coordLoop floats i (Suc n) startPos ts =
     (let len = length floats;
          a1 = num_or0 (if i = len then js_nth floats (int i - 1) else js_nth floats (int i));
          a2 = num_or0 (if i = 0 then Num 0 else js_nth floats (int i - 1));
          off = trackOffset ts i;
          sx = fst startPos + fst off + cos (real_of_int a1 * pi / 180);
          sy = snd startPos + snd off + sin (real_of_int a1 * pi / 180);
          ts' = (if i < length ts
                 then ts[i := (ts ! i)\<lparr>position :=
                        Some \<lparr>posx = toFixed8 sx, posy = toFixed8 sy,
                              angle1 = a1, angle2 = a2 - 180,
                              cangle = (if i = len then js_add (js_nth floats (int i - 1)) (Num 180)
                                        else js_nth floats (int i))\<rparr>\<rparr>]
                 else ts)
      in coordLoop floats (Suc i) n (sx, sy) ts')"

definition calculateTileCoordinates :: "level \<Rightarrow> level" where
  "calculateTileCoordinates L =
     (let floats = resolveFloats (angleData L) (length (tiles L))
      in L\<lparr>tiles := coordLoop floats 0 (length floats + 1) (0, 0) (tiles L)\<rparr>)"

section \<open>Text repair (parser.js)\<close>

text \<open>
  A JavaScript string is a sequence of UTF-16 code units, here natural numbers; \<open>lit\<close>
  turns an ASCII literal into one.
\<close>

type_synonym jstring = "nat list"

definition lit :: "string \<Rightarrow> jstring" where
  "lit s = map of_char s"

text \<open>The class \<open>\s\<close> of a JavaScript regular expression.\<close>

definition isSpace :: "nat \<Rightarrow> bool" where
  "isSpace c \<longleftrightarrow>
     c \<in> {9, 10, 11, 12, 13, 32, 160, 5760, 8232, 8233, 8239, 8287, 12288, 65279}
     \<or> (8192 \<le> c \<and> c \<le> 8202)"

text \<open>
  A matcher looks for a match that starts at the head of the text and returns the
  replacement and the length of the match. \<open>gsub\<close> is \<open>replace\<close> with a \<open>/g\<close>
  pattern and \<open>replaceAll\<close>: matches are taken left to right and the scan resumes
  behind each match (the counter skips the matched characters). \<open>replaceFirst\<close>
  is \<open>replace\<close> with a string pattern: the leftmost match only.
\<close>

type_synonym matcher = "jstring \<Rightarrow> (jstring \<times> nat) option"

fun gsub :: "matcher \<Rightarrow> nat \<Rightarrow> jstring \<Rightarrow> jstring" where
  "gsub m skip [] = []"
| "gsub m (Suc k) (c # cs) = gsub m k cs"
| "gsub m 0 (c # cs) =
     (case m (c # cs) of
        Some (rep, n) \<Rightarrow> rep @ gsub m (n - 1) cs
      | None \<Rightarrow> c # gsub m 0 cs)"

fun replaceFirst :: "matcher \<Rightarrow> jstring \<Rightarrow> jstring" where
  "replaceFirst m [] = []"
| "replaceFirst m (c # cs) =
     (case m (c # cs) of
        Some (rep, n) \<Rightarrow> rep @ drop n (c # cs)
      | None \<Rightarrow> c # replaceFirst m cs)"

text \<open>A literal (non-empty) pattern.\<close>

definition litMatch :: "jstring \<Rightarrow> jstring \<Rightarrow> matcher" where
  "litMatch pat rep s =
     (if pat \<noteq> [] \<and> take (length pat) s = pat then Some (rep, length pat) else None)"

text \<open>
  \<open>/,(\s*[}\]])/\<close> replaced by \<open>$1\<close>: a comma, then all the white space, then a closing
  brace or bracket; the comma goes.
\<close>

definition trailingComma :: matcher where
  "trailingComma s =
     (case s of
        [] \<Rightarrow> None
      | c # cs \<Rightarrow>
          (if c = 44
           then (case dropWhile isSpace cs of
                   [] \<Rightarrow> None
                 | b # _ \<Rightarrow>
                     (if b = 125 \<or> b = 93
                      then Some (takeWhile isSpace cs @ [b], length (takeWhile isSpace cs) + 2)
                      else None))
           else None))"

text \<open>\<open>/,\s*}/\<close> replaced by \<open>}\<close> and \<open>/,\s*]/\<close> replaced by \<open>]\<close>: here the white space goes too.\<close>

definition commaBefore :: "nat \<Rightarrow> matcher" where
  "commaBefore closing s =
     (case s of
        [] \<Rightarrow> None
      | c # cs \<Rightarrow>
          (if c = 44
           then (case dropWhile isSpace cs of
                   [] \<Rightarrow> None
                 | b # _ \<Rightarrow>
                     (if b = closing
                      then Some ([closing], length (takeWhile isSpace cs) + 2)
                      else None))
           else None))"

text \<open>
  \<open>/(\{[^{}]*?)(,)(?=\s*?(\{|\[))/\<close> replaced by \<open>$1\<close>: an opening brace, as few
  non-brace characters as possible, and a comma that white space and an opening brace or
  bracket follow; the comma goes. \<open>findComma\<close> returns the number of characters
  between the brace and that comma.
\<close>

definition opensAfterSpace :: "jstring \<Rightarrow> bool" where
  "opensAfterSpace cs =
     (case dropWhile isSpace cs of [] \<Rightarrow> False | b # _ \<Rightarrow> b = 123 \<or> b = 91)"

fun findComma :: "jstring \<Rightarrow> nat \<Rightarrow> nat option" where
  "findComma [] k = None"
| "findComma (c # cs) k =
     (if c = 44 \<and> opensAfterSpace cs then Some k
      else if c = 123 \<or> c = 125 then None
      else findComma cs (k + 1))"

definition commaBeforeOpen :: matcher where
  "commaBeforeOpen s =
     (case s of
        [] \<Rightarrow> None
      | c # cs \<Rightarrow>
          (if c = 123
           then (case findComma cs 0 of
                   None \<Rightarrow> None
                 | Some k \<Rightarrow> Some (c # take k cs, k + 2))
           else None))"

text \<open>A leading byte-order mark (code unit 65279) is removed.\<close>

definition stripBOM :: "jstring \<Rightarrow> jstring" where
  "stripBOM f = (case f of [] \<Rightarrow> [] | c # cs \<Rightarrow> if c = 65279 then cs else f)"

text \<open>
  \<open>Parser.parseError\<close> up to, and without, its last substitution; then the whole
  chain. The last substitution is \<open>.replace(",,", ",")\<close>.
\<close>

definition repairHead :: "jstring \<Rightarrow> jstring" where
  "repairHead f =
     replaceFirst (litMatch (32 # lit ''\"decorations\"'') (44 # lit ''\"decorations\"''))
       (gsub commaBeforeOpen 0
         (gsub (commaBefore 93) 0
           (gsub (commaBefore 125) 0
             (gsub trailingComma 0
               (gsub (litMatch [10, 92, 110] [92, 110]) 0
                 (stripBOM f))))))"

definition parseError :: "jstring \<Rightarrow> jstring" where
  "parseError f = replaceFirst (litMatch [44, 44] [44]) (repairHead f)"

definition parseAsText :: "jstring \<Rightarrow> jstring" where
  "parseAsText t = parseError t"

text \<open>The number of places where two commas stand next to each other.\<close>

fun doubledCommas :: "jstring \<Rightarrow> nat" where
  "doubledCommas (a # b # cs) = (if a = 44 \<and> b = 44 then 1 else 0) + doubledCommas (b # cs)"
| "doubledCommas cs = 0"

section \<open>Loading a level (structure.js, pathdata)\<close>

definition pathDataTable :: "(char \<times> int) list" where
  "pathDataTable =
     [(CHR ''R'', 0), (CHR ''p'', 15), (CHR ''J'', 30), (CHR ''E'', 45), (CHR ''T'', 60),
      (CHR ''o'', 75), (CHR ''U'', 90), (CHR ''q'', 105), (CHR ''G'', 120), (CHR ''Q'', 135),
      (CHR ''H'', 150), (CHR ''W'', 165), (CHR ''L'', 180), (CHR ''x'', 195), (CHR ''N'', 210),
      (CHR ''Z'', 225), (CHR ''F'', 240), (CHR ''V'', 255), (CHR ''D'', 270), (CHR ''Y'', 285),
      (CHR ''B'', 300), (CHR ''C'', 315), (CHR ''M'', 330), (CHR ''A'', 345), (CHR ''5'', 555),
      (CHR ''6'', 666), (CHR ''7'', 777), (CHR ''8'', 888), (CHR ''!'', 999)]"

text \<open>A character that is no key of the table maps to \<open>undefined\<close>.\<close>

definition parseToangleData :: "string \<Rightarrow> jsnum list" where
  "parseToangleData pathdata =
     map (\<lambda>t. case map_of pathDataTable t of Some v \<Rightarrow> Num v | None \<Rightarrow> NaN) pathdata"

text \<open>The parsed object: each of the five keys that \<open>load\<close> looks for is present or not.\<close>

record options =
  pathDataO :: "string option"
  angleDataO :: "jsnum list option"
  actionsO :: "action list option"
  settingsO :: "settings option"
  decorationsO :: "action list option"

datatype load_input = OptString jstring | OptObject options | OptOther

text \<open>
  A promise settles once: \<open>reject\<close> and \<open>resolve\<close> on a settled promise do nothing,
  and neither ends the executor, which runs on.
\<close>

datatype promise = Pending | Fulfilled | Rejected string

definition reject :: "string \<Rightarrow> promise \<Rightarrow> promise" where
  "reject reason p = (if p = Pending then Rejected reason else p)"

definition resolve :: "promise \<Rightarrow> promise" where
  "resolve p = (if p = Pending then Fulfilled else p)"

text \<open>
  \<open>Parser.parseAsObject\<close>: the provider's \<open>parse\<close> (a parameter: \<open>JSON.parse\<close> or a
  third-party parser; \<open>None\<close> when it throws) on the repaired text.
\<close>

definition parseAsObject :: "(jstring \<Rightarrow> options option) \<Rightarrow> jstring \<Rightarrow> options option" where
  "parseAsObject provider t = provider (parseAsText t)"

text \<open>The \<open>switch\<close> at the head of \<open>load\<close>: the options object, if there is one, and the promise.\<close>

definition loadOptions :: "(jstring \<Rightarrow> options option) \<Rightarrow> load_input \<Rightarrow> options option \<times> promise" where
  "loadOptions provider opt =
     (case opt of
        OptString s \<Rightarrow>
          (case parseAsObject provider s of
             None \<Rightarrow> (None, reject ''parse error'' Pending)
           | Some ob \<Rightarrow> (Some ob, Pending))
      | OptObject ob \<Rightarrow> (Some ob, Pending)
      | OptOther \<Rightarrow> (None, reject ''Options must be String or Object'' Pending))"

text \<open>
  \<open>load\<close>: the promise it returns and the level it leaves. With no options object the
  test \<open>'pathData' in options\<close> throws, and with no heading array
  \<open>this.angleData.length\<close> throws; an exception in the executor rejects the promise
  if it is still pending, and the level is left half assigned (\<open>None\<close>).
\<close>

definition load :: "(jstring \<Rightarrow> options option) \<Rightarrow> load_input \<Rightarrow> promise \<times> level option" where
  "load provider opt =
     (let (options, p0) = loadOptions provider opt
      in case options of
           None \<Rightarrow> (reject ''TypeError'' p0, None)
         | Some ob \<Rightarrow>
             (let (agd, p1) =
                    (case pathDataO ob of
                       Some pd \<Rightarrow> (Some (parseToangleData pd), p0)
                     | None \<Rightarrow>
                         (case angleDataO ob of
                            Some a \<Rightarrow> (Some a, p0)
                          | None \<Rightarrow> (None, reject ''There is not any angle datas.'' p0)));
                  acts = (case actionsO ob of Some a \<Rightarrow> a | None \<Rightarrow> []);
                  p2 = (case settingsO ob of
                          Some st \<Rightarrow> p1
                        | None \<Rightarrow> reject ''There is no ADOFAI settings.'' p1);
                  decos = (case decorationsO ob of Some d \<Rightarrow> d | None \<Rightarrow> [])
              in case agd of
                   None \<Rightarrow> (reject ''TypeError'' p2, None)
                 | Some a \<Rightarrow>
                     (let (m, L1) = createArray (length a)
                                      \<lparr>opt_angleData = a, opt_actions = acts, opt_decorations = decos\<rparr>
                                      (freshLevel a acts (settingsO ob) decos)
                      in (resolve p2, Some (L1\<lparr>tiles := m\<rparr>)))))"

section \<open>Track meshes (mesh_reserve.js)\<close>

text \<open>
  Coordinates are real numbers here, with the exact \<open>cos\<close>, \<open>sin\<close> and power; the
  buffers are the flat arrays of the source.
\<close>

record mesh =
  vertices :: "real list"
  faces :: "real list"
  colors :: "real list"

definition TILE_WIDTH :: real where
  "TILE_WIDTH = 275 / 1000"

definition TILE_LENGTH :: real where
  "TILE_LENGTH = 5 / 10"

definition OUTLINE :: real where
  "OUTLINE = 25 / 1000"

text \<open>\<open>x % y\<close> on real numbers: the quotient is truncated towards zero.\<close>

definition jsremr :: "real \<Rightarrow> real \<Rightarrow> real" where
  "jsremr x y = x - y * real_of_int (if 0 \<le> x / y then \<lfloor>x / y\<rfloor> else \<lceil>x / y\<rceil>)"

definition fmod :: "real \<Rightarrow> real \<Rightarrow> real" where
  "fmod x y = (if x \<ge> 0 then jsremr x y else jsremr x y + y)"

definition lerp :: "real \<Rightarrow> real \<Rightarrow> real \<Rightarrow> real" where
  "lerp a b t = a + (b - a) * t"

type_synonym vec3 = "real \<times> real \<times> real"

text \<open>
  \<open>createCircle\<close> appends to the three buffers: the centre and \<open>resolution\<close> rim
  vertices, as many colours, and \<open>resolution\<close> triangles.
\<close>

definition createCircle :: "vec3 \<Rightarrow> real \<Rightarrow> vec3 \<Rightarrow> mesh \<Rightarrow> int \<Rightarrow> mesh" where
  "createCircle center radius color m resolution =
     (let res = (if resolution \<le> 0 then 32 else nat resolution);
          centerIndex = real (length (vertices m)) / 3;
          (cx, cy, cz) = center;
          (r, g, b) = color
      in \<lparr>vertices = vertices m @ [cx, cy, cz] @
             concat (map (\<lambda>i. [cos (2 * pi * real i / real res) * radius + cx,
                                sin (2 * pi * real i / real res) * radius + cy,
                                cz]) [0 ..< res]),
           faces = faces m @
             concat (map (\<lambda>i. [centerIndex, centerIndex + real i, centerIndex + real i + 1])
                       [1 ..< res]) @
             [centerIndex, centerIndex + real res, centerIndex + 1],
           colors = colors m @ [r, g, b] @ concat (map (\<lambda>i. [r, g, b]) [0 ..< res])\<rparr>)"

definition blackColor :: vec3 where
  "blackColor = (0, 0, 0)"

definition whiteColor :: vec3 where
  "whiteColor = (1, 1, 1)"

text \<open>\<open>n\<close> vertices of one colour.\<close>

definition pushColors :: "nat \<Rightarrow> vec3 \<Rightarrow> real list" where
  "pushColors n color = (case color of (r, g, b) \<Rightarrow> concat (replicate n [r, g, b]))"

text \<open>The seven vertices of one layer of the midspin marker.\<close>

definition midSpinVertices :: "real \<Rightarrow> real \<Rightarrow> real \<Rightarrow> real \<Rightarrow> real \<Rightarrow> real \<Rightarrow> real list" where
  "midSpinVertices mx my l w m1 m2 =
     [mx + l * m1 + w * m2, my + l * m2 - w * m1, 0,
      mx + l * m1 - w * m2, my + l * m2 + w * m1, 0,
      mx - w * m2, my + w * m1, 0,
      mx + w * m2, my - w * m1, 0,
      mx - w * m1, my - w * m2, 0,
      mx + w * m2, my - w * m1, 0,
      mx - w * m2, my + w * m1, 0]"

definition midSpinFaces :: "real \<Rightarrow> real list" where
  "midSpinFaces count =
     [count, count + 1, count + 2, count + 2, count + 3, count, count + 4, count + 5, count + 6]"

text \<open>
  \<open>createMidSpinMesh\<close>: the outer layer uses \<open>widthi\<close> and \<open>lengthi\<close>, both grown by
  the outline; the inner layer uses \<open>width\<close> and \<open>lengthi\<close>, each less twice the
  constant \<open>OUTLINE\<close>.
\<close>

definition createMidSpinMesh :: "real \<Rightarrow> real \<Rightarrow> real \<Rightarrow> real \<Rightarrow> mesh" where
  "createMidSpinMesh ang width len outline =
     (let m1 = cos ((ang / 180) * pi);
          m2 = sin ((ang / 180) * pi);
          mx = - m1 * (4 / 100);
          my = - m2 * (4 / 100);
          widthi = width + outline;
          lengthi = len + outline;
          count = 0;
          vs1 = midSpinVertices mx my lengthi widthi m1 m2;
          cs1 = pushColors 7 blackColor;
          fs1 = midSpinFaces count;
          width' = width - OUTLINE * 2;
          lengthi' = lengthi - OUTLINE * 2;
          count' = real (length vs1) / 3;
          vs2 = vs1 @ midSpinVertices mx my lengthi' width' m1 m2;
          cs2 = cs1 @ pushColors 7 whiteColor;
          fs2 = fs1 @ midSpinFaces count'
      in \<lparr>vertices = vs2, faces = fs2, colors = cs2\<rparr>)"

text \<open>The geometry that joins the chamfer circle to the two heading rays: six vertices, four triangles.\<close>

definition pushConnect :: "real \<Rightarrow> real \<Rightarrow> real \<Rightarrow> real \<Rightarrow> real \<Rightarrow> real \<Rightarrow> vec3 \<Rightarrow> mesh \<Rightarrow> mesh" where
  "pushConnect radius circlex circley width a0 a1 color m =
     (let count = real (length (vertices m)) / 3
      in \<lparr>vertices = vertices m @
             [- radius * sin a1 + circlex, radius * cos a1 + circley, 0,
              circlex, circley, 0,
              radius * sin a0 + circlex, - radius * cos a0 + circley, 0,
              width * sin a0, - width * cos a0, 0,
              0, 0, 0,
              - width * sin a1, width * cos a1, 0],
           faces = faces m @
             [count, count + 1, count + 5,
              count + 4, count + 1, count + 5,
              count + 2, count + 3, count + 4,
              count + 1, count + 3, count + 4],
           colors = colors m @ pushColors 6 color\<rparr>)"

text \<open>The two rectangular end caps: eight vertices, four triangles.\<close>

definition pushEndCaps :: "real \<Rightarrow> real \<Rightarrow> real \<Rightarrow> real \<Rightarrow> real \<Rightarrow> real \<Rightarrow> vec3 \<Rightarrow> mesh \<Rightarrow> mesh" where
  "pushEndCaps len width m11 m12 m21 m22 color m =
     (let count = real (length (vertices m)) / 3
      in \<lparr>vertices = vertices m @
             [len * m11 + width * m12, len * m12 - width * m11, 0,
              len * m11 - width * m12, len * m12 + width * m11, 0,
              - width * m12, width * m11, 0,
              width * m12, - width * m11, 0,
              len * m21 + width * m22, len * m22 - width * m21, 0,
              len * m21 - width * m22, len * m22 + width * m21, 0,
              - width * m22, width * m21, 0,
              width * m22, - width * m21, 0],
           faces = faces m @
             [count, count + 1, count + 2,
              count + 2, count + 3, count,
              count + 4, count + 5, count + 6,
              count + 6, count + 7, count + 4],
           colors = colors m @ pushColors 8 color\<rparr>)"

text \<open>The wedge of the wide case: four vertices, two triangles.\<close>

definition pushWedge :: "real \<Rightarrow> real \<Rightarrow> real \<Rightarrow> real \<Rightarrow> real \<Rightarrow> real \<Rightarrow> vec3 \<Rightarrow> mesh \<Rightarrow> mesh" where
  "pushWedge count circlex circley width a0 a1 color m =
     \<lparr>vertices = vertices m @
        [circlex, circley, 0,
         width * sin a0, - width * cos a0, 0,
         0, 0, 0,
         - width * sin a1, width * cos a1, 0],
      faces = faces m @ [count, count + 1, count + 2, count + 2, count + 3, count],
      colors = colors m @ pushColors 4 color\<rparr>"

text \<open>The radius scale \<open>x\<close> of the small-angle case.\<close>

definition chamferScale :: "real \<Rightarrow> real" where
  "chamferScale ang =
     (if ang < 8726646 / 100000000 then 1
      else if ang < 5235988 / 10000000
        then lerp 1 (83 / 100) (((ang - 8726646 / 100000000) / (43633235 / 100000000)) powr (1 / 2))
      else if ang < 7853982 / 10000000
        then lerp (83 / 100) (77 / 100) (((ang - 5235988 / 10000000) / (2617994 / 10000000)) powr 1)
      else if ang < 15707964 / 10000000
        then lerp (77 / 100) (15 / 100) (((ang - 7853982 / 10000000) / (7853982 / 10000000)) powr (7 / 10))
      else lerp (15 / 100) 0 (((ang - 15707964 / 10000000) / (5235988 / 10000000)) powr (1 / 2)))"

definition emptyMesh :: mesh where
  "emptyMesh = \<lparr>vertices = [], faces = [], colors = []\<rparr>"

definition createTileMesh :: "real \<Rightarrow> real \<Rightarrow> real \<Rightarrow> real \<Rightarrow> real \<Rightarrow> mesh" where
  "createTileMesh startAngle endAngle len width outline =
     (let m11 = cos ((startAngle / 180) * pi);
          m12 = sin ((startAngle / 180) * pi);
          m21 = cos ((endAngle / 180) * pi);
          m22 = sin ((endAngle / 180) * pi);
          a0 = (if fmod (startAngle - endAngle) 360 \<ge> fmod (endAngle - startAngle) 360
                then (fmod startAngle 360 * pi) / 180
                else (fmod endAngle 360 * pi) / 180);
          a1 = (if fmod (startAngle - endAngle) 360 \<ge> fmod (endAngle - startAngle) 360
                then a0 + (fmod (endAngle - startAngle) 360 * pi) / 180
                else a0 + (fmod (startAngle - endAngle) 360 * pi) / 180);
          ang = a1 - a0;
          mid = a0 + ang / 2
      in if ang < 20943952 / 10000000 \<and> ang > 0
         then (let x = chamferScale ang;
                   radius = (if x = 1 then width else lerp 0 width x);
                   distance = (if x = 1 then 0 else (width - radius) / sin (ang / 2));
                   circlex = - distance * cos mid;
                   circley = - distance * sin mid;
                   width1 = width + outline;
                   len1 = len + outline;
                   radius1 = radius + outline;
                   k1 = createCircle (circlex, circley, 0) radius1 blackColor emptyMesh 32;
                   k2 = pushConnect radius1 circlex circley width1 a0 a1 blackColor k1;
                   k3 = pushEndCaps len1 width1 m11 m12 m21 m22 blackColor k2;
                   width2 = width1 - outline * 2;
                   len2 = len1 - outline * 2;
                   radius2 = radius1 - outline * 2;
                   radius3 = (if radius2 < 0 then 0 else radius2);
                   circlex' = (if radius2 < 0 then (- width2 / sin (ang / 2)) * cos mid else circlex);
                   circley' = (if radius2 < 0 then (- width2 / sin (ang / 2)) * sin mid else circley);
                   k4 = createCircle (circlex', circley', 0) radius3 whiteColor k3 32;
                   k5 = pushConnect radius3 circlex' circley' width2 a0 a1 whiteColor k4
               in pushEndCaps len2 width2 m11 m12 m21 m22 whiteColor k5)
         else if ang > 0
         then (let width1 = width + outline;
                   len1 = len + outline;
                   circlex = (- width1 / sin (ang / 2)) * cos mid;
                   circley = (- width1 / sin (ang / 2)) * sin mid;
                   k1 = pushWedge 0 circlex circley width1 a0 a1 blackColor emptyMesh;
                   k2 = pushEndCaps len1 width1 m11 m12 m21 m22 blackColor k1;
                   width2 = width1 - outline * 2;
                   len2 = len1 - outline * 2;
                   innerCirclex = (- width2 / sin (ang / 2)) * cos mid;
                   innerCircley = (- width2 / sin (ang / 2)) * sin mid;
                   k3 = pushWedge (real (length (vertices k2)) / 3) innerCirclex innerCircley
                          width2 a0 a1 whiteColor k2
               in pushEndCaps len2 width2 m11 m12 m21 m22 whiteColor k3)
         else emptyMesh)"

text \<open>
  \<open>createTrackMesh\<close>; the caller's defaults for the last three arguments are
  \<open>TILE_LENGTH\<close>, \<open>TILE_WIDTH\<close> and \<open>OUTLINE\<close>. The midspin mesh is called with the
  heading alone, so with its own defaults.
\<close>

definition createTrackMesh :: "real \<Rightarrow> real \<Rightarrow> bool \<Rightarrow> real \<Rightarrow> real \<Rightarrow> real \<Rightarrow> mesh" where
  "createTrackMesh startAngle endAngle isMidspin len width outline =
     (if isMidspin then createMidSpinMesh startAngle TILE_WIDTH TILE_WIDTH OUTLINE
      else createTileMesh startAngle endAngle len width outline)"

text \<open>
  The mesh data that the previewer asks for when it draws tile \<open>id\<close>:
  \<open>tiles[k]?.direction || 0\<close> and \<open>tiles[k]?.direction == 999\<close> on a tile list.
\<close>

definition directionOr0 :: "tile list \<Rightarrow> int \<Rightarrow> int" where
  "directionOr0 ts k =
     (if 0 \<le> k \<and> k < int (length ts) then num_or0 (direction (ts ! nat k)) else 0)"

definition directionIsMidspin :: "tile list \<Rightarrow> int \<Rightarrow> bool" where
  "directionIsMidspin ts k =
     (if 0 \<le> k \<and> k < int (length ts) then js_eq (direction (ts ! nat k)) (Num 999) else False)"

definition tileMeshData :: "tile list \<Rightarrow> int \<Rightarrow> mesh" where
  "tileMeshData ts ident =
     (let pred = (if directionIsMidspin ts (ident - 1) then directionOr0 ts (ident - 2)
                  else directionOr0 ts (ident - 1) - 180);
          pred2 = directionOr0 ts ident
      in createTrackMesh (real_of_int pred) (real_of_int pred2) (directionIsMidspin ts ident)
           TILE_LENGTH TILE_WIDTH OUTLINE)"

section \<open>Orbiting planets (the previewer)\<close>

record planet =
  pid :: nat
  px :: real
  py :: real
  pangle :: real
  isCenter :: bool
  tileIndex :: nat

record previewer =
  adofaiTiles :: "tile list"
  planets :: "planet list"
  currentBpm :: real
  rotationSpeed :: real
  isClockwise :: bool
  centerPlanetIndex :: nat
  currentTileIndex :: nat

text \<open>\<open>Math.atan2(dy, dx)\<close> on real numbers.\<close>

definition atan2 :: "real \<Rightarrow> real \<Rightarrow> real" where
  "atan2 dy dx =
     (if dx > 0 then arctan (dy / dx)
      else if dx < 0 \<and> dy \<ge> 0 then arctan (dy / dx) + pi
      else if dx < 0 then arctan (dy / dx) - pi
      else if dy > 0 then pi / 2
      else if dy < 0 then - pi / 2
      else 0)"

text \<open>\<open>v || d\<close> on an optional number: a missing or zero value gives \<open>d\<close>.\<close>

definition orElse :: "real option \<Rightarrow> real \<Rightarrow> real" where
  "orElse v d = (case v of None \<Rightarrow> d | Some x \<Rightarrow> if x = 0 then d else x)"

definition updateRotationSpeed :: "previewer \<Rightarrow> previewer" where
  "updateRotationSpeed P = P\<lparr>rotationSpeed := (2 * pi) / (60000 / currentBpm P)\<rparr>"

definition spinSign :: "previewer \<Rightarrow> real" where
  "spinSign P = (if isClockwise P then 1 else - 1)"

text \<open>\<open>processActionsAtTile\<close>: Pause, then SetSpeed, then Twirl.\<close>

definition applyPause :: "nat \<Rightarrow> previewer \<Rightarrow> previewer" where
  "applyPause tileIdx P =
     (let (cnt, acts) = getActionsByIndex (adofaiTiles P) ''Pause'' tileIdx
      in if cnt > 0
         then (let dur = orElse (duration (hd acts)) 0;
                   extraRotation = (dur / 2) * 2 * pi
               in P\<lparr>planets :=
                     map (\<lambda>pl. if pid pl \<noteq> centerPlanetIndex P
                                then pl\<lparr>pangle := pangle pl + extraRotation * spinSign P\<rparr>
                                else pl) (planets P)\<rparr>)
         else P)"

definition applySetSpeed :: "nat \<Rightarrow> previewer \<Rightarrow> previewer" where
  "applySetSpeed tileIdx P =
     (let (cnt, acts) = getActionsByIndex (adofaiTiles P) ''SetSpeed'' tileIdx
      in if cnt > 0
         then (let act = hd acts;
                   P1 = (if speedType act = Some ''Multiplier''
                         then P\<lparr>currentBpm := currentBpm P * orElse (bpmMultiplier act) 1\<rparr>
                         else if speedType act = Some ''Bpm''
                         then P\<lparr>currentBpm := orElse (beatsPerMinute act) (currentBpm P)\<rparr>
                         else P)
               in updateRotationSpeed P1)
         else P)"

definition applyTwirl :: "nat \<Rightarrow> previewer \<Rightarrow> previewer" where
  "applyTwirl tileIdx P =
     (let (cnt, acts) = getActionsByIndex (adofaiTiles P) ''Twirl'' tileIdx
      in if cnt > 0 then P\<lparr>isClockwise := \<not> isClockwise P\<rparr> else P)"

definition processActionsAtTile :: "nat \<Rightarrow> previewer \<Rightarrow> previewer" where
  "processActionsAtTile tileIdx P = applyTwirl tileIdx (applySetSpeed tileIdx (applyPause tileIdx P))"

text \<open>\<open>recalculatePlanetAngles\<close>: every planet but the centre gets \<open>atan2(dy, dx)\<close>.\<close>

definition recalculatePlanetAngles :: "previewer \<Rightarrow> previewer" where
  "recalculatePlanetAngles P =
     (if centerPlanetIndex P < length (planets P)
      then (let c = planets P ! centerPlanetIndex P
            in P\<lparr>planets :=
                  map (\<lambda>(index, pl). if index = centerPlanetIndex P then pl
                                      else pl\<lparr>pangle := atan2 (py pl - py c) (px pl - px c)\<rparr>)
                    (zip [0 ..< length (planets P)] (planets P))\<rparr>)
      else P)"

text \<open>
  \<open>checkPlanetTileTransition\<close>: the next tile is looked up at
  \<open>centerPlanetIndex + 1\<close>. A tile without a position makes the destructuring throw.
\<close>

definition checkPlanetTileTransition :: "planet \<Rightarrow> nat \<Rightarrow> previewer \<Rightarrow> js_error + previewer" where
  "checkPlanetTileTransition pl planetIndex P =
     (let nextTileIndex = centerPlanetIndex P + 1
      in if nextTileIndex < length (adofaiTiles P)
         then (case position (adofaiTiles P ! nextTileIndex) of
                 None \<Rightarrow> Inl TypeError
               | Some tp \<Rightarrow>
                   (let distance = sqrt ((px pl - posx tp) ^ 2 + (py pl - posy tp) ^ 2)
                    in if distance < 5 / 10
                       then Inr (recalculatePlanetAngles
                                   (processActionsAtTile nextTileIndex
                                      (P\<lparr>centerPlanetIndex := planetIndex,
                                         currentTileIndex := nextTileIndex\<rparr>)))
                       else Inr P))
         else Inr P)"

section \<open>Sample inputs\<close>

text \<open>An action of the given type at the given floor, with no payload.\<close>

definition plainAction :: "string \<Rightarrow> int \<Rightarrow> action" where
  "plainAction ty fl =
     \<lparr>eventType = ty, positionOffset = None, editorOnly = None, duration = None,
      speedType = None, bpmMultiplier = None, beatsPerMinute = None, floorN = fl\<rparr>"

text \<open>The level that a fulfilled \<open>load\<close> of a heading array without actions leaves.\<close>

definition loadedLevel :: "jsnum list \<Rightarrow> level" where
  "loadedLevel agd =
     (case snd (load (\<lambda>t. None)
                  (OptObject \<lparr>pathDataO = None, angleDataO = Some agd, actionsO = None,
                              settingsO = Some [], decorationsO = None\<rparr>)) of
        Some L \<Rightarrow> L
      | None \<Rightarrow> freshLevel agd [] None [])"

text \<open>Parsed objects: one without settings, one without any key, one with path codes and settings only.\<close>

definition optionsNoSettings :: options where
  "optionsNoSettings =
     \<lparr>pathDataO = None, angleDataO = Some [Num 0, Num 90], actionsO = None,
      settingsO = None, decorationsO = None\<rparr>"

definition optionsEmpty :: options where
  "optionsEmpty =
     \<lparr>pathDataO = None, angleDataO = None, actionsO = None,
      settingsO = None, decorationsO = None\<rparr>"

definition optionsPathOnly :: options where
  "optionsPathOnly =
     \<lparr>pathDataO = Some ''RU'', angleDataO = None, actionsO = None,
      settingsO = Some [], decorationsO = None\<rparr>"

text \<open>A tile with heading 0 at the given position.\<close>

definition placedTile :: "real \<Rightarrow> real \<Rightarrow> tile" where
  "placedTile x y =
     \<lparr>direction = Num 0, lastdir = Num 0, actions = [], angle = Num 180, addDecorations = [],
      twirl = 0,
      position = Some \<lparr>posx = x, posy = y, angle1 = 0, angle2 = - 180, cangle = Num 0\<rparr>\<rparr>"

text \<open>
  A previewer on four tiles three units apart, after two crossings: planet 1 took the
  centre at tile 1, then planet 0 took it at tile 2, so planet 0 is the centre and the
  current tile is 2; planet 1 still stands at tile 1.
\<close>

definition afterTwoCrossings :: previewer where
  "afterTwoCrossings =
     \<lparr>adofaiTiles = [placedTile 1 0, placedTile 4 0, placedTile 7 0, placedTile 10 0],
      planets = [\<lparr>pid = 0, px = 7, py = 0, pangle = 0, isCenter = True, tileIndex = 0\<rparr>,
                 \<lparr>pid = 1, px = 4, py = 0, pangle = pi, isCenter = False, tileIndex = 1\<rparr>],
      currentBpm = 120, rotationSpeed = (2 * pi) / (60000 / 120), isClockwise = True,
      centerPlanetIndex = 0, currentTileIndex = 2\<rparr>"

section \<open>Properties of the buffers\<close>

text \<open>
  The vertex and colour buffers have the same length, and the three buffers hold whole
  triples.
\<close>

definition buffersAligned :: "mesh \<Rightarrow> bool" where
  "buffersAligned m \<longleftrightarrow>
     length (vertices m) = length (colors m) \<and> 3 dvd length (vertices m) \<and> 3 dvd length (faces m)"

section \<open>The angle recurrence, tile by tile\<close>

lemma js_eq_NaN [simp]: "js_eq a NaN = False"
  by (simp add: js_eq_def split: jsnum.splits)

lemma filterByFloor_count: "snd (filterByFloor arr i tc) = tc + twirlsAt arr i"
  by (simp add: filterByFloor_def twirlsAt_def Let_def conj_commute)

lemma parseAngle_snd: "snd (parseAngle agd i p ad) = angleDirBefore agd (Suc i)"
  by (simp add: parseAngle_def angleDirBefore_def Let_def)

lemma parseAngle_fst_0: "fst (parseAngle agd 0 p ad) = fst (parseAngle agd 0 p (Num 180))"
  by (simp add: parseAngle_def Let_def)

lemma mkTile_twirl: "twirl (fst (mkTile opt i st)) = snd st + twirlsAt (opt_actions opt) i"
  by (simp add: mkTile_def case_prod_beta filterByFloor_count)

lemma mkTile_state:
  "snd (mkTile opt i st) =
     (angleDirBefore (opt_angleData opt) (Suc i), snd st + twirlsAt (opt_actions opt) i)"
  by (simp add: mkTile_def case_prod_beta filterByFloor_count parseAngle_snd)

lemma mkTile_angle:
  "angle (fst (mkTile opt i st)) =
     fst (parseAngle (opt_angleData opt) i
            ((snd st + twirlsAt (opt_actions opt) i) mod 2) (fst st))"
  by (simp add: mkTile_def case_prod_beta filterByFloor_count)

lemma createTiles_length: "length (fst (createTiles opt i n st)) = n"
  by (induction n arbitrary: i st) (simp_all add: case_prod_beta)

lemma createTiles_twirl:
  "k < n \<Longrightarrow> twirl (fst (createTiles opt i n st) ! k) =
      snd st + sum_list (map (twirlsAt (opt_actions opt)) [i ..< i + k + 1])"
proof (induction n arbitrary: i st k)
  case 0
  then show ?case by simp
next
  case (Suc n)
  show ?case
  proof (cases k)
    case 0
    then show ?thesis by (simp add: case_prod_beta mkTile_twirl)
  next
    case (Suc k')
    with Suc.prems have "k' < n" by simp
    have u: "[i ..< i + k + 1] = i # [Suc i ..< Suc i + k' + 1]"
      using Suc by (simp add: upt_conv_Cons del: upt_Suc)
    from Suc.IH [OF \<open>k' < n\<close>, of "Suc i" "snd (mkTile opt i st)"] Suc
    show ?thesis
      unfolding u by (simp add: case_prod_beta mkTile_state add.assoc del: upt_Suc)
  qed
qed

lemma createTiles_angle:
  "k < n \<Longrightarrow> angle (fst (createTiles opt i n st) ! k) =
      fst (parseAngle (opt_angleData opt) (i + k)
             ((snd st + sum_list (map (twirlsAt (opt_actions opt)) [i ..< i + k + 1])) mod 2)
             (if k = 0 then fst st else angleDirBefore (opt_angleData opt) (i + k)))"
proof (induction n arbitrary: i st k)
  case 0
  then show ?case by simp
next
  case (Suc n)
  show ?case
  proof (cases k)
    case 0
    then show ?thesis by (simp add: case_prod_beta mkTile_angle)
  next
    case (Suc k')
    with Suc.prems have "k' < n" by simp
    have u: "[i ..< i + k + 1] = i # [Suc i ..< Suc i + k' + 1]"
      using Suc by (simp add: upt_conv_Cons del: upt_Suc)
    from Suc.IH [OF \<open>k' < n\<close>, of "Suc i" "snd (mkTile opt i st)"] Suc
    show ?thesis
      unfolding u by (simp add: case_prod_beta mkTile_state add.assoc del: upt_Suc)
  qed
qed

lemma buildTiles_twirl:
  "i < length agd \<Longrightarrow>
     twirl (buildTiles agd acts decos ! i) = sum_list (map (twirlsAt acts) [0 ..< i + 1])"
  using createTiles_twirl [of i "length agd"
      "\<lparr>opt_angleData = agd, opt_actions = acts, opt_decorations = decos\<rparr>" 0 "(Num (- 180), 0)"]
  by (simp add: buildTiles_def createArray_def freshLevel_def case_prod_beta del: upt_Suc)

lemma buildTiles_angle:
  "i < length agd \<Longrightarrow>
     angle (buildTiles agd acts decos ! i) =
       fst (parseAngle agd i (sum_list (map (twirlsAt acts) [0 ..< i + 1]) mod 2)
              (angleDirBefore agd i))"
proof -
  assume a: "i < length agd"
  show ?thesis
  proof (cases i)
    case 0
    then show ?thesis
      using a createTiles_angle [of 0 "length agd"
          "\<lparr>opt_angleData = agd, opt_actions = acts, opt_decorations = decos\<rparr>" 0 "(Num (- 180), 0)"]
        parseAngle_fst_0 [of agd _ "Num (- 180)"] parseAngle_fst_0 [of agd _ "angleDirBefore agd 0"]
      by (simp add: buildTiles_def createArray_def freshLevel_def case_prod_beta del: upt_Suc)
  next
    case (Suc j)
    then show ?thesis
      using a createTiles_angle [of i "length agd"
          "\<lparr>opt_angleData = agd, opt_actions = acts, opt_decorations = decos\<rparr>" 0 "(Num (- 180), 0)"]
      by (simp add: buildTiles_def createArray_def freshLevel_def case_prod_beta del: upt_Suc)
  qed
qed

lemma twirlsAt_single:
  assumes "filter (\<lambda>a. eventType a = ''Twirl'') acts = [t]" and "floorN t = 2"
  shows "twirlsAt acts j = (if j = 2 then 1 else 0)"
proof -
  have "twirlsAt acts j =
          length (filter (\<lambda>a. floorN a = int j) (filter (\<lambda>a. eventType a = ''Twirl'') acts))"
    by (simp add: twirlsAt_def conj_commute)
  also have "\<dots> = (if j = 2 then 1 else 0)"
    using assms by simp
  finally show ?thesis .
qed

lemma sum_single_2:
  "sum_list (map (\<lambda>j. if j = 2 then 1 else 0) [0 ..< i + 1]) = (if i < 2 then 0 else (1::nat))"
  by (induction i) auto

text \<open>
  C2, as amended. When the only Twirl action of the level is registered at floor 2, the
  parity recorded in the tiles is 0 at floors 0 and 1 and 1 from floor 2 on (it toggles
  exactly once), and the angle of every tile is the one \<open>_parseAngle\<close> computes with
  that parity: the flipped sign is already used for floor 2 itself, because
  \<open>_filterByFloor\<close> counts the Twirl before the angle of the same floor is computed.
\<close>

theorem twirl_at_floor_2_flips_from_floor_2:
  assumes "filter (\<lambda>a. eventType a = ''Twirl'') acts = [t]" and "floorN t = 2"
    and "i < length agd"
  shows "twirl (buildTiles agd acts decos ! i) = (if i < 2 then 0 else 1) \<and>
         angle (buildTiles agd acts decos ! i) =
           fst (parseAngle agd i (if i < 2 then 0 else 1) (angleDirBefore agd i))"
proof -
  have m: "map (twirlsAt acts) [0 ..< i + 1] = map (\<lambda>j. if j = 2 then 1 else 0) [0 ..< i + 1]"
    using twirlsAt_single [OF assms(1,2)] by simp
  have s: "sum_list (map (twirlsAt acts) [0 ..< i + 1]) = (if i < 2 then 0 else 1)"
    unfolding m by (rule sum_single_2)
  show ?thesis
    using buildTiles_twirl [OF assms(3), of acts decos] buildTiles_angle [OF assms(3), of acts decos]
    unfolding s by simp
qed

text \<open>The hypotheses of the C2 theorem hold for four tiles with one Twirl at floor 2.\<close>

theorem twirl_at_floor_2_witness:
  "filter (\<lambda>a. eventType a = ''Twirl'') [plainAction ''Twirl'' 2] = [plainAction ''Twirl'' 2]
   \<and> floorN (plainAction ''Twirl'' 2) = 2
   \<and> (3::nat) < length [Num 0, Num 0, Num 90, Num 90]
   \<and> twirl (buildTiles [Num 0, Num 0, Num 90, Num 90] [plainAction ''Twirl'' 2] [] ! 3) = 1
   \<and> angle (buildTiles [Num 0, Num 0, Num 90, Num 90] [plainAction ''Twirl'' 2] [] ! 3) = Num 180"
proof -
  have h1: "filter (\<lambda>a. eventType a = ''Twirl'') [plainAction ''Twirl'' 2] = [plainAction ''Twirl'' 2]"
    by (simp add: plainAction_def)
  have h2: "floorN (plainAction ''Twirl'' 2) = 2"
    by (simp add: plainAction_def)
  have h3: "(3::nat) < length [Num 0, Num 0, Num 90, Num 90]"
    by simp
  have p: "fst (parseAngle [Num 0, Num 0, Num 90, Num 90] 3 1
                  (angleDirBefore [Num 0, Num 0, Num 90, Num 90] 3)) = Num 180"
    by code_simp
  show ?thesis
    using twirl_at_floor_2_flips_from_floor_2 [OF h1 h2 h3, of "[]"] h1 h2 p by simp
qed

text \<open>
  C2 as stated fails: for the headings 0, 0, 90 and a Twirl at floor 2 the angle of floor
  2 is 270, the value for the flipped parity, while the parity before the Twirl gives 90
  (the angle of the same tile when the level has no Twirl).
\<close>

theorem floor_2_angle_uses_post_twirl_parity:
  "angle (buildTiles [Num 0, Num 0, Num 90] [plainAction ''Twirl'' 2] [] ! 2) = Num 270
   \<and> fst (parseAngle [Num 0, Num 0, Num 90] 2 0 (angleDirBefore [Num 0, Num 0, Num 90] 2)) = Num 90
   \<and> angle (buildTiles [Num 0, Num 0, Num 90] [] [] ! 2) = Num 90"
  by code_simp

text \<open>
  C1: every tile that is no midspin has an angle above 0 and at most 360. The code
  leaves that range: the remainder operator keeps the sign of a negative difference, so
  the single heading 270 gives the angle -90, and 450 when a Twirl is registered at
  floor 0.
\<close>

theorem relativeAngle_leaves_range:
  "direction (buildTiles [Num 270] [] [] ! 0) = Num 270
   \<and> angle (buildTiles [Num 270] [] [] ! 0) = Num (- 90)
   \<and> angle (buildTiles [Num 270] [plainAction ''Twirl'' 0] [] ! 0) = Num 450"
  by code_simp


section \<open>Edits replay the angles without the reset\<close>

text \<open>
  C3: after a structural edit every angle equals the one a rebuild of the edited heading
  sequence gives. The code differs on a level loaded from the headings 0, 90, 90 or
  0, 90: deleting tile 2, appending a tile of heading 90 and inserting one at index 1 all
  leave tile 0 with the angle 270, where a rebuild gives 180, because \<open>_changeAngle\<close>
  counts from 1 and the reset of \<open>_angleDir\<close> at \<open>i == 0\<close> never runs.
\<close>

theorem floorOperation_differs_from_rebuild:
  "(case floorOperation (Delete 2) (loadedLevel [Num 0, Num 90, Num 90]) of
      Inl e \<Rightarrow> False
    | Inr L \<Rightarrow> map direction (tiles L) = [Num 0, Num 90]
              \<and> map angle (tiles L) = [Num 270, Num 90])
   \<and> map angle (buildTiles [Num 0, Num 90] [] []) = [Num 180, Num 90]
   \<and> (case floorOperation (Append (Num 90)) (loadedLevel [Num 0, Num 90]) of
      Inl e \<Rightarrow> False
    | Inr L \<Rightarrow> map direction (tiles L) = [Num 0, Num 90, Num 90]
              \<and> map angle (tiles L) = [Num 270, Num 90, Num 180])
   \<and> (case floorOperation (Insert 1 (Num 90)) (loadedLevel [Num 0, Num 90]) of
      Inl e \<Rightarrow> False
    | Inr L \<Rightarrow> map direction (tiles L) = [Num 0, Num 90, Num 90]
              \<and> map angle (tiles L) = [Num 270, Num 90, Num 180])
   \<and> map angle (buildTiles [Num 0, Num 90, Num 90] [] []) = [Num 180, Num 90, Num 180]"
  by code_simp

section \<open>The midspin scenario\<close>

lemma tiles_h_999_0_second:
  "buildTiles [Num h, Num 999, Num 0] [] [] ! 1
     = \<lparr>direction = Num 999, lastdir = Num h, actions = [], angle = Num 0,
        addDecorations = [], twirl = 0, position = None\<rparr>"
  by (simp add: buildTiles_def createArray_def freshLevel_def numeral_3_eq_3 case_prod_beta
      mkTile_def filterByFloor_def filterByFloorwithDeco_def parseAngle_def js_nth_def
      js_eq_def js_or0_def Let_def)

lemma tiles_h_999_0_first:
  "direction (buildTiles [Num h, Num 999, Num 0] [] [] ! 0) = Num h"
  by (simp add: buildTiles_def createArray_def freshLevel_def numeral_3_eq_3 case_prod_beta
      mkTile_def filterByFloor_def filterByFloorwithDeco_def parseAngle_def js_nth_def
      js_eq_def js_or0_def Let_def)

lemma state_after_h_999:
  "fst (snd (createTiles \<lparr>opt_angleData = [Num h, Num 999, Num 0], opt_actions = [],
                           opt_decorations = []\<rparr> 0 2 (Num (- 180), 0))) = Num h"
  by (simp add: numeral_2_eq_2 case_prod_beta mkTile_def filterByFloor_def
      parseAngle_def js_nth_def js_eq_def Let_def)

lemma length_h_999_0: "length (buildTiles [Num h, Num 999, Num 0] [] []) = 3"
  by (simp add: buildTiles_def createArray_def case_prod_beta createTiles_length)

text \<open>
  C4, as amended. For the headings \<open>h\<close>, 999, 0 without actions (the scenario is
  \<open>h = 0\<close>) the tile of index 1 has the angle 0 and keeps the sentinel 999 in its
  \<open>direction\<close>: that field does not take the predecessor's heading. What the tile
  takes from its predecessor is the heading carried on, \<open>h\<close>: \<open>_angleDir\<close> after the
  tile and the tile's \<open>_lastdir\<close> both equal the \<open>direction\<close> of tile 0. The tile is
  drawn as a midspin marker: the previewer's test \<open>direction == 999\<close> holds for it, so
  the mesh asked for is the midspin mesh (at the predecessor's heading less 180, or at 0
  when the predecessor is a midspin itself) and no rail segment.
\<close>

theorem midspin_keeps_sentinel_and_passes_heading_on:
  "angle (buildTiles [Num h, Num 999, Num 0] [] [] ! 1) = Num 0
   \<and> direction (buildTiles [Num h, Num 999, Num 0] [] [] ! 1) = Num 999
   \<and> direction (buildTiles [Num h, Num 999, Num 0] [] [] ! 0) = Num h
   \<and> lastdir (buildTiles [Num h, Num 999, Num 0] [] [] ! 1) = Num h
   \<and> fst (snd (createTiles \<lparr>opt_angleData = [Num h, Num 999, Num 0], opt_actions = [],
                              opt_decorations = []\<rparr> 0 2 (Num (- 180), 0))) = Num h
   \<and> directionIsMidspin (buildTiles [Num h, Num 999, Num 0] [] []) 1
   \<and> tileMeshData (buildTiles [Num h, Num 999, Num 0] [] []) 1 =
       createMidSpinMesh (real_of_int (if h = 999 then 0 else h - 180))
         TILE_WIDTH TILE_WIDTH OUTLINE"
proof -
  let ?ts = "buildTiles [Num h, Num 999, Num 0] [] []"
  have t1: "?ts ! 1 = \<lparr>direction = Num 999, lastdir = Num h, actions = [], angle = Num 0,
        addDecorations = [], twirl = 0, position = None\<rparr>"
    by (rule tiles_h_999_0_second)
  have t0: "direction (?ts ! 0) = Num h"
    by (rule tiles_h_999_0_first)
  have m: "directionIsMidspin ?ts 1"
    using t1 by (simp add: directionIsMidspin_def length_h_999_0 js_eq_def)
  have d0: "directionOr0 ?ts 0 = h" "directionIsMidspin ?ts 0 = (h = 999)"
    using t0 by (simp_all add: directionOr0_def directionIsMidspin_def length_h_999_0
        js_eq_def num_or0_def)
  have dm: "\<And>ts. directionOr0 ts (- 1) = 0"
    by (simp add: directionOr0_def)
  have mesh: "tileMeshData ?ts 1 =
       createMidSpinMesh (real_of_int (if h = 999 then 0 else h - 180))
         TILE_WIDTH TILE_WIDTH OUTLINE"
    using m d0 dm by (simp add: tileMeshData_def createTrackMesh_def)
  from t1 t0 m mesh state_after_h_999 [of h] show ?thesis by simp
qed

text \<open>
  C4 as stated fails: for the headings 0, 999, 0 the \<open>direction\<close> of tile 1 is the
  sentinel 999, not the 0 of tile 0.
\<close>

theorem midspin_direction_is_not_inherited:
  "direction (buildTiles [Num 0, Num 999, Num 0] [] [] ! 0) = Num 0
   \<and> direction (buildTiles [Num 0, Num 999, Num 0] [] [] ! 1) = Num 999
   \<and> direction (buildTiles [Num 0, Num 999, Num 0] [] [] ! 1) \<noteq> Num 0"
  by code_simp

section \<open>The position pass\<close>

lemma coordLoop_length: "length (coordLoop floats i n pos ts) = length ts"
  by (induction n arbitrary: i pos ts) (simp_all add: Let_def)

lemma coordLoop_below: "j < i \<Longrightarrow> coordLoop floats i n pos ts ! j = ts ! j"
  by (induction n arbitrary: i pos ts) (simp_all add: Let_def)

lemma first_tile_angle2:
  "tiles L \<noteq> [] \<Longrightarrow>
     map_option angle2 (position (tiles (calculateTileCoordinates L) ! 0)) = Some (- 180)"
  by (cases "tiles L") (simp_all add: calculateTileCoordinates_def Let_def coordLoop_below
      resolveFloats_def num_or0_def del: upt_Suc)

text \<open>
  C8, as amended. In the position pass the auxiliary outgoing heading recorded for tile
  0 (\<open>position.angle2\<close>) is -180: the placeholder 0 that stands for the missing
  predecessor, less the 180 that is subtracted for every tile.
\<close>

theorem angle2_of_tile_0:
  assumes "tiles L \<noteq> []"
  shows "\<exists>p. position (tiles (calculateTileCoordinates L) ! 0) = Some p \<and> angle2 p = - 180"
  using first_tile_angle2 [OF assms] by auto

text \<open>The hypothesis of the C8 theorem holds for the level of the headings 0, 90.\<close>

theorem angle2_of_tile_0_witness:
  "tiles (loadedLevel [Num 0, Num 90]) \<noteq> []
   \<and> (\<exists>p. position (tiles (calculateTileCoordinates (loadedLevel [Num 0, Num 90])) ! 0) = Some p
           \<and> angle2 p = - 180)"
proof -
  have h: "tiles (loadedLevel [Num 0, Num 90]) \<noteq> []"
    by code_simp
  show ?thesis
    using h angle2_of_tile_0 [OF h] by simp
qed

text \<open>
  C8 as stated fails: for the level of the single heading 0 the value recorded for tile
  0 is -180, not 0.
\<close>

theorem angle2_of_tile_0_is_not_0:
  "map_option angle2 (position (tiles (calculateTileCoordinates (loadedLevel [Num 0])) ! 0))
     = Some (- 180)
   \<and> map_option angle2 (position (tiles (calculateTileCoordinates (loadedLevel [Num 0])) ! 0))
     \<noteq> Some 0"
proof -
  have h: "tiles (loadedLevel [Num 0]) \<noteq> []"
    by code_simp
  show ?thesis
    using first_tile_angle2 [OF h] by auto
qed


section \<open>The last substitution of the text repair\<close>

lemma litMatch_commas:
  "litMatch [44, 44] [44] (a # b # cs) = (if a = 44 \<and> b = 44 then Some ([44], 2) else None)"
  by (simp add: litMatch_def)

lemma litMatch_commas_single: "litMatch [44, 44] [44] [a] = None"
  by (simp add: litMatch_def)

lemma replaceFirst_commas_head:
  "\<exists>xs. replaceFirst (litMatch [44, 44] [44]) (b # cs) = b # xs"
  by (cases cs) (simp_all add: litMatch_commas litMatch_commas_single)

lemma replaceFirst_removes_one:
  "doubledCommas (replaceFirst (litMatch [44, 44] [44]) s) = doubledCommas s - 1"
proof (induction s rule: doubledCommas.induct)
  case (1 a b cs)
  show ?case
  proof (cases "a = 44 \<and> b = 44")
    case True
    then show ?thesis by (simp add: litMatch_commas)
  next
    case False
    obtain xs where xs: "replaceFirst (litMatch [44, 44] [44]) (b # cs) = b # xs"
      using replaceFirst_commas_head by blast
    have "doubledCommas (a # b # xs) = doubledCommas (b # xs)"
      using False by auto
    with False 1 xs show ?thesis
      by (auto simp add: litMatch_commas)
  qed
qed (simp_all add: litMatch_commas_single)

text \<open>
  C9, as amended. The last substitution collapses the first doubled comma only: the
  repaired text has exactly one place fewer where two commas stand next to each other
  than the text that reaches that substitution (and none fewer when there is none), so
  it is free of doubled commas exactly when at most one such place reaches it.
\<close>

theorem parseError_collapses_first_doubled_comma:
  "doubledCommas (parseError f) = doubledCommas (repairHead f) - 1
   \<and> (doubledCommas (parseError f) = 0) = (doubledCommas (repairHead f) \<le> 1)"
  unfolding parseError_def replaceFirst_removes_one by auto

lemma lit_sample_in: "lit ''1,,2,,3'' = [49, 44, 44, 50, 44, 44, 51]"
  by (simp add: lit_def)

lemma lit_sample_out: "lit ''1,2,,3'' = [49, 44, 50, 44, 44, 51]"
  by (simp add: lit_def)

lemma digits_no_space: "\<not> isSpace 44" "\<not> isSpace 49" "\<not> isSpace 50" "\<not> isSpace 51"
  by (simp_all add: isSpace_def)

lemma repairHead_sample:
  "repairHead [49, 44, 44, 50, 44, 44, 51] = [49, 44, 44, 50, 44, 44, 51]"
  by (simp add: repairHead_def stripBOM_def litMatch_def trailingComma_def commaBefore_def
      commaBeforeOpen_def digits_no_space lit_def)

text \<open>
  C9 as stated fails: the text \<open>1,,2,,3\<close> is repaired to \<open>1,2,,3\<close>, which still holds
  two adjacent commas.
\<close>

theorem parseError_keeps_second_doubled_comma:
  "parseError (lit ''1,,2,,3'') = lit ''1,2,,3''
   \<and> doubledCommas (parseError (lit ''1,,2,,3'')) = 1"
  unfolding lit_sample_in lit_sample_out parseError_def repairHead_sample
  by (simp add: litMatch_def)

section \<open>Loading\<close>

lemma loadOptions_pending:
  "fst (loadOptions provider opt) = Some ob \<Longrightarrow> loadOptions provider opt = (Some ob, Pending)"
  by (auto simp add: loadOptions_def split: load_input.splits option.splits)

lemma load_no_headings:
  assumes "loadOptions provider opt = (Some ob, Pending)"
    and "pathDataO ob = None" and "angleDataO ob = None"
  shows "load provider opt = (Rejected ''There is not any angle datas.'', None)"
  using assms by (simp add: load_def reject_def split: option.splits)

lemma load_no_settings:
  assumes "loadOptions provider opt = (Some ob, Pending)"
    and "settingsO ob = None"
  shows "\<exists>r. fst (load provider opt) = Rejected r"
  using assms
  by (cases "pathDataO ob"; cases "angleDataO ob")
     (simp_all add: load_def reject_def resolve_def case_prod_beta Let_def)

lemma load_fulfilled:
  assumes "loadOptions provider opt = (Some ob, Pending)"
    and "fst (load provider opt) = Fulfilled"
  shows "\<exists>L. snd (load provider opt) = Some L
             \<and> actionsL L = (case actionsO ob of Some a \<Rightarrow> a | None \<Rightarrow> [])
             \<and> decorationsL L = (case decorationsO ob of Some d \<Rightarrow> d | None \<Rightarrow> [])"
  using assms
  by (cases "pathDataO ob"; cases "angleDataO ob"; cases "settingsO ob")
     (simp_all add: load_def reject_def resolve_def case_prod_beta createArray_def
        freshLevel_def Let_def)

text \<open>
  C7. For the object that \<open>load\<close> works on (the one passed in, or the one parsed from
  the text): when it has neither \<open>pathData\<close> nor \<open>angleData\<close>, or has no \<open>settings\<close>,
  the promise of \<open>load\<close> is rejected; and when the promise is fulfilled, a missing
  \<open>actions\<close> key has given the empty action list and a missing \<open>decorations\<close> key the
  empty decoration list.
\<close>

theorem load_rejects_and_defaults:
  assumes "fst (loadOptions provider opt) = Some ob"
  shows "(((pathDataO ob = None \<and> angleDataO ob = None) \<or> settingsO ob = None)
            \<longrightarrow> (\<exists>r. fst (load provider opt) = Rejected r))
       \<and> (fst (load provider opt) = Fulfilled
            \<longrightarrow> (\<exists>L. snd (load provider opt) = Some L
                     \<and> (actionsO ob = None \<longrightarrow> actionsL L = [])
                     \<and> (decorationsO ob = None \<longrightarrow> decorationsL L = [])))"
proof -
  note p = loadOptions_pending [OF assms]
  have a: "pathDataO ob = None \<and> angleDataO ob = None \<Longrightarrow> \<exists>r. fst (load provider opt) = Rejected r"
    using load_no_headings [OF p] by simp
  have b: "settingsO ob = None \<Longrightarrow> \<exists>r. fst (load provider opt) = Rejected r"
    using load_no_settings [OF p] by simp
  have c: "fst (load provider opt) = Fulfilled \<Longrightarrow>
        \<exists>L. snd (load provider opt) = Some L
                     \<and> (actionsO ob = None \<longrightarrow> actionsL L = [])
                     \<and> (decorationsO ob = None \<longrightarrow> decorationsL L = [])"
  proof -
    assume f: "fst (load provider opt) = Fulfilled"
    from load_fulfilled [OF p f] obtain L where
      "snd (load provider opt) = Some L"
      "actionsL L = (case actionsO ob of Some a \<Rightarrow> a | None \<Rightarrow> [])"
      "decorationsL L = (case decorationsO ob of Some d \<Rightarrow> d | None \<Rightarrow> [])"
      by blast
    then show ?thesis by simp
  qed
  from a b c show ?thesis by blast
qed

text \<open>
  The hypotheses of the C7 theorem hold: an object without settings and an object
  without any key are rejected, and an object with path codes and settings only is
  loaded with empty action and decoration lists, also when it comes from a text.
\<close>

theorem load_rejects_and_defaults_witness:
  "fst (loadOptions (\<lambda>t. None) (OptObject optionsNoSettings)) = Some optionsNoSettings
   \<and> settingsO optionsNoSettings = None
   \<and> (\<exists>r. fst (load (\<lambda>t. None) (OptObject optionsNoSettings)) = Rejected r)
   \<and> fst (loadOptions (\<lambda>t. None) (OptObject optionsEmpty)) = Some optionsEmpty
   \<and> pathDataO optionsEmpty = None \<and> angleDataO optionsEmpty = None
   \<and> (\<exists>r. fst (load (\<lambda>t. None) (OptObject optionsEmpty)) = Rejected r)
   \<and> fst (loadOptions (\<lambda>t. Some optionsPathOnly) (OptString [])) = Some optionsPathOnly
   \<and> fst (load (\<lambda>t. Some optionsPathOnly) (OptString [])) = Fulfilled
   \<and> actionsO optionsPathOnly = None \<and> decorationsO optionsPathOnly = None
   \<and> (\<exists>L. snd (load (\<lambda>t. Some optionsPathOnly) (OptString [])) = Some L
          \<and> actionsL L = [] \<and> decorationsL L = [])"
proof -
  have h1: "fst (loadOptions (\<lambda>t. None) (OptObject optionsNoSettings)) = Some optionsNoSettings"
    by (simp add: loadOptions_def)
  have h2: "fst (loadOptions (\<lambda>t. None) (OptObject optionsEmpty)) = Some optionsEmpty"
    by (simp add: loadOptions_def)
  have h3: "fst (loadOptions (\<lambda>t. Some optionsPathOnly) (OptString [])) = Some optionsPathOnly"
    by (simp add: loadOptions_def parseAsObject_def)
  have f: "fst (load (\<lambda>t. Some optionsPathOnly) (OptString [])) = Fulfilled"
    by (simp add: load_def loadOptions_def parseAsObject_def optionsPathOnly_def resolve_def
        createArray_def case_prod_beta)
  have n1: "settingsO optionsNoSettings = None"
    by (simp add: optionsNoSettings_def)
  have n2: "pathDataO optionsEmpty = None \<and> angleDataO optionsEmpty = None"
    by (simp add: optionsEmpty_def)
  have n3: "actionsO optionsPathOnly = None \<and> decorationsO optionsPathOnly = None"
    by (simp add: optionsPathOnly_def)
  show ?thesis
    using load_rejects_and_defaults [OF h1] load_rejects_and_defaults [OF h2]
      load_rejects_and_defaults [OF h3] h1 h2 h3 f n1 n2 n3
    by simp
qed

section \<open>Buffer lengths of the meshes\<close>

lemma length_concat_triples:
  "length (concat (map (\<lambda>i. [f i, g i, h i]) xs)) = 3 * length xs"
  by (induction xs) simp_all

lemma length_pushColors: "length (pushColors n color) = 3 * n"
  by (cases color) (simp add: pushColors_def length_concat sum_list_replicate)

lemma dvd_Suc3: "3 dvd Suc (Suc (Suc n)) \<longleftrightarrow> 3 dvd n"
  by presburger

lemma aligned_empty: "buffersAligned emptyMesh"
  by (simp add: buffersAligned_def emptyMesh_def)

lemma aligned_createCircle:
  "buffersAligned m \<Longrightarrow> buffersAligned (createCircle center radius color m resolution)"
  by (cases center; cases color)
     (auto simp add: buffersAligned_def createCircle_def Let_def length_concat_triples dvd_Suc3)

lemma aligned_pushConnect:
  "buffersAligned m \<Longrightarrow> buffersAligned (pushConnect radius cx cy width a0 a1 color m)"
  by (auto simp add: buffersAligned_def pushConnect_def Let_def length_pushColors dvd_Suc3)

lemma aligned_pushEndCaps:
  "buffersAligned m \<Longrightarrow> buffersAligned (pushEndCaps len width m11 m12 m21 m22 color m)"
  by (auto simp add: buffersAligned_def pushEndCaps_def Let_def length_pushColors dvd_Suc3)

lemma aligned_pushWedge:
  "buffersAligned m \<Longrightarrow> buffersAligned (pushWedge count cx cy width a0 a1 color m)"
  by (auto simp add: buffersAligned_def pushWedge_def length_pushColors dvd_Suc3)

lemma aligned_createMidSpinMesh: "buffersAligned (createMidSpinMesh ang width len outline)"
  by (simp add: buffersAligned_def createMidSpinMesh_def Let_def length_pushColors
      midSpinVertices_def midSpinFaces_def dvd_Suc3)

lemmas aligned_steps =
  aligned_empty aligned_createCircle aligned_pushConnect aligned_pushEndCaps aligned_pushWedge

lemma aligned_createTileMesh: "buffersAligned (createTileMesh startAngle endAngle len width outline)"
  unfolding createTileMesh_def Let_def
  by (intro aligned_steps | simp only: if_split | rule conjI impI)+

text \<open>
  C6. For every pair of headings, every midspin flag (and every length, width and
  outline), the mesh that \<open>createTrackMesh\<close> returns has as many vertex numbers as
  colour numbers, both counts are multiples of 3, and so is the count of face indices.
\<close>

theorem createTrackMesh_buffer_lengths:
  "length (vertices (createTrackMesh startAngle endAngle isMidspin len width outline)) =
     length (colors (createTrackMesh startAngle endAngle isMidspin len width outline))
   \<and> 3 dvd length (vertices (createTrackMesh startAngle endAngle isMidspin len width outline))
   \<and> 3 dvd length (colors (createTrackMesh startAngle endAngle isMidspin len width outline))
   \<and> 3 dvd length (faces (createTrackMesh startAngle endAngle isMidspin len width outline))"
  using aligned_createTileMesh [of startAngle endAngle len width outline]
    aligned_createMidSpinMesh [of startAngle TILE_WIDTH TILE_WIDTH OUTLINE]
  by (auto simp add: createTrackMesh_def buffersAligned_def)

section \<open>Headings a whole number of turns apart\<close>

lemma jsremr_turns: "jsremr (360 * real_of_int k) 360 = 0"
  by (simp add: jsremr_def)

lemma fmod_turns: "fmod (360 * real_of_int k) 360 = (if 0 \<le> k then 0 else 360)"
  by (simp add: fmod_def jsremr_turns)

lemma swept_angle_zero:
  assumes "startAngle - endAngle = 360 * real_of_int k"
  shows "(if fmod (startAngle - endAngle) 360 \<ge> fmod (endAngle - startAngle) 360
          then fmod (endAngle - startAngle) 360
          else fmod (startAngle - endAngle) 360) = 0"
proof -
  have e: "endAngle - startAngle = 360 * real_of_int (- k)"
    using assms by simp
  show ?thesis
    unfolding assms e fmod_turns by auto
qed

lemma createTileMesh_turns:
  assumes "startAngle - endAngle = 360 * real_of_int k"
  shows "createTileMesh startAngle endAngle len width outline = emptyMesh"
proof -
  let ?c = "fmod (startAngle - endAngle) 360 \<ge> fmod (endAngle - startAngle) 360"
  let ?a0 = "(if ?c then (fmod startAngle 360 * pi) / 180 else (fmod endAngle 360 * pi) / 180)"
  have h: "(if ?c then ?a0 + (fmod (endAngle - startAngle) 360 * pi) / 180
           else ?a0 + (fmod (startAngle - endAngle) 360 * pi) / 180) - ?a0 = 0"
    using swept_angle_zero [OF assms] by (simp split: if_splits)
  show ?thesis
    unfolding createTileMesh_def Let_def
    by (simp only: h less_irrefl simp_thms if_False)
qed

text \<open>
  C10. When the two headings of a tile that is no midspin differ by a whole number of
  turns (they are congruent modulo 360, the swept angle is 0), the mesh that
  \<open>createTrackMesh\<close> returns has no vertices, no faces and no colours.
\<close>

theorem backtrack_tile_has_no_geometry:
  assumes "startAngle - endAngle = 360 * real_of_int k"
  shows "vertices (createTrackMesh startAngle endAngle False len width outline) = []
       \<and> faces (createTrackMesh startAngle endAngle False len width outline) = []
       \<and> colors (createTrackMesh startAngle endAngle False len width outline) = []"
  using createTileMesh_turns [OF assms, of len width outline]
  by (simp add: createTrackMesh_def emptyMesh_def)

text \<open>The hypothesis of the C10 theorem holds for the headings 450 and 90.\<close>

theorem backtrack_tile_witness:
  "(450::real) - 90 = 360 * real_of_int 1
   \<and> vertices (createTrackMesh 450 90 False TILE_LENGTH TILE_WIDTH OUTLINE) = []
   \<and> faces (createTrackMesh 450 90 False TILE_LENGTH TILE_WIDTH OUTLINE) = []
   \<and> colors (createTrackMesh 450 90 False TILE_LENGTH TILE_WIDTH OUTLINE) = []"
proof -
  have h: "(450::real) - 90 = 360 * real_of_int 1"
    by simp
  show ?thesis
    using h backtrack_tile_has_no_geometry [OF h, of TILE_LENGTH TILE_WIDTH OUTLINE] by simp
qed

section \<open>Crossings in the previewer\<close>

lemma processActionsAtTile_indices:
  "centerPlanetIndex (processActionsAtTile i P) = centerPlanetIndex P
   \<and> currentTileIndex (processActionsAtTile i P) = currentTileIndex P"
  by (simp add: processActionsAtTile_def applyTwirl_def applySetSpeed_def applyPause_def
      updateRotationSpeed_def Let_def case_prod_beta)

lemma recalculatePlanetAngles_indices:
  "centerPlanetIndex (recalculatePlanetAngles P) = centerPlanetIndex P
   \<and> currentTileIndex (recalculatePlanetAngles P) = currentTileIndex P"
  by (simp add: recalculatePlanetAngles_def Let_def)

lemma crossing_indices:
  assumes "centerPlanetIndex P + 1 < length (adofaiTiles P)"
    and "position (adofaiTiles P ! (centerPlanetIndex P + 1)) = Some tp"
    and "sqrt ((px pl - posx tp) ^ 2 + (py pl - posy tp) ^ 2) < 5 / 10"
  shows "\<exists>P'. checkPlanetTileTransition pl k P = Inr P' \<and> centerPlanetIndex P' = k
            \<and> currentTileIndex P' = centerPlanetIndex P + 1"
  using assms
  by (simp add: checkPlanetTileTransition_def Let_def processActionsAtTile_indices
      recalculatePlanetAngles_indices)

text \<open>
  C5: at a crossing the tile index advances by one, the crossing being tested against
  the tile after the current one. The code tests against the tile after the index of
  the centre planet and stores that index: with planet 0 in the centre and the current
  tile 2, planet 1 standing on tile 1 crosses, and the current tile goes back to 1
  (instead of no crossing, or an advance to 3).
\<close>

theorem crossing_takes_tile_after_planet_index:
  "currentTileIndex afterTwoCrossings = 2
   \<and> (\<exists>P'. checkPlanetTileTransition (planets afterTwoCrossings ! 1) 1 afterTwoCrossings = Inr P'
           \<and> centerPlanetIndex P' = 1 \<and> currentTileIndex P' = 1)"
proof -
  have a: "centerPlanetIndex afterTwoCrossings + 1 < length (adofaiTiles afterTwoCrossings)"
    by (simp add: afterTwoCrossings_def)
  have b: "position (adofaiTiles afterTwoCrossings ! (centerPlanetIndex afterTwoCrossings + 1)) =
             Some \<lparr>posx = 4, posy = 0, angle1 = 0, angle2 = - 180, cangle = Num 0\<rparr>"
    by (simp add: afterTwoCrossings_def placedTile_def)
  have c: "sqrt ((px (planets afterTwoCrossings ! 1)
                   - posx \<lparr>posx = 4, posy = 0, angle1 = 0, angle2 = - 180, cangle = Num 0\<rparr>) ^ 2
               + (py (planets afterTwoCrossings ! 1)
                   - posy \<lparr>posx = 4, posy = 0, angle1 = 0, angle2 = - 180, cangle = Num 0\<rparr>) ^ 2)
             < 5 / 10"
    by (simp add: afterTwoCrossings_def)
  have d: "centerPlanetIndex afterTwoCrossings = 0" "currentTileIndex afterTwoCrossings = 2"
    by (simp_all add: afterTwoCrossings_def)
  from crossing_indices [OF a b c, of 1] d show ?thesis by simp
qed

end
